theory Spec2Isabelle
  imports Complex_Main
begin

section \<open>The HolE model of \<^verbatim>\<open>src/poem/models/unimodal/hole.py\<close>\<close>

subsection \<open>Tensors, embeddings and the model object\<close>

text \<open>
  A tensor of shape \<open>(n, d)\<close> is a list of \<open>n\<close> rows of \<open>d\<close> reals. The tensor that
  \<^verbatim>\<open>torch.rfft\<close> returns for one row has shape \<open>(d, 2)\<close>: a list of pairs, the real
  part at index 0 of the last dimension and the imaginary part at index 1 (the index
  that line 101, \<^verbatim>\<open>a_fft[:, :, 1] *= -1\<close>, negates). Floating-point numbers are
  modelled by the reals.
\<close>

datatype error = IndexError | TypeError | AttributeError | RuntimeError | ShapeMismatch

text \<open>Running on after a call that may raise: the first error is the result.\<close>

definition bind :: "error + 'a \<Rightarrow> ('a \<Rightarrow> error + 'b) \<Rightarrow> error + 'b" where
  "bind m f = (case m of Inl e \<Rightarrow> Inl e | Inr x \<Rightarrow> f x)"

text \<open>\<^verbatim>\<open>torch.nn.Embedding\<close>: the two sizes and the weight tensor.\<close>

record Embedding =
  num_embeddings :: nat
  embedding_size :: nat
  weight :: "real list list"

datatype reduction = Mean | Sum | NoReduction

datatype Loss =
  MarginRankingLoss real reduction
  | NegativeSamplingSelfAdversarialLoss real real

text \<open>
  The fields of a \<^verbatim>\<open>HolE\<close> object that the class reads. Both tables are
  \<^verbatim>\<open>Optional[nn.Embedding]\<close> in the source.
\<close>

record HolE =
  num_entities :: nat
  num_relations :: nat
  embedding_dim :: nat
  criterion :: Loss
  entity_embeddings :: "Embedding option"
  relation_embeddings :: "Embedding option"

text \<open>Line 37, the class attribute.\<close>

definition entity_embedding_max_norm :: real where
  "entity_embedding_max_norm = 1"

text \<open>
  Calling an embedding on a one-dimensional index tensor gathers the rows; an index
  outside \<open>0 .. num_embeddings - 1\<close> raises.
\<close>

fun embedding :: "Embedding \<Rightarrow> int list \<Rightarrow> error + real list list" where
  "embedding E [] = Inr []"
| "embedding E (i # idx) =
     (if 0 \<le> i \<and> i < int (length (weight E))
      then bind (embedding E idx) (\<lambda>rows. Inr (weight E ! nat i # rows))
      else Inl IndexError)"

text \<open>
  \<^verbatim>\<open>self.entity_embeddings(idx)\<close> and \<^verbatim>\<open>self.entity_embeddings.weight\<close> on a
  field that may be \<^verbatim>\<open>None\<close>: calling \<^verbatim>\<open>None\<close> is a TypeError, reading an
  attribute of it an AttributeError.
\<close>

definition call_embedding :: "Embedding option \<Rightarrow> int list \<Rightarrow> error + real list list" where
  "call_embedding table idx =
     (case table of None \<Rightarrow> Inl TypeError | Some E \<Rightarrow> embedding E idx)"

definition get_weight :: "Embedding option \<Rightarrow> error + real list list" where
  "get_weight table = (case table of None \<Rightarrow> Inl AttributeError | Some E \<Rightarrow> Inr (weight E))"

subsection \<open>The transforms and the tensor operations of the forward passes\<close>

text \<open>
  A tensor operation that works row by row and may raise: the first error is the
  result.
\<close>

fun all_rows :: "('a \<Rightarrow> error + 'b) \<Rightarrow> 'a list \<Rightarrow> error + 'b list" where
  "all_rows f [] = Inr []"
| "all_rows f (x # xs) = bind (f x) (\<lambda>y. bind (all_rows f xs) (\<lambda>ys. Inr (y # ys)))"

text \<open>
  \<^verbatim>\<open>torch.rfft(x, signal_ndim=1, onesided=False)\<close> on one row: the full discrete
  Fourier transform \<open>X\<^sub>k = \<Sum>\<^sub>n x\<^sub>n exp (- 2 \<pi> i k n / d)\<close>, as (real, imaginary) pairs.
\<close>

definition rfft :: "real list \<Rightarrow> (real \<times> real) list" where
  "rfft x =
     (let d = length x
      in map (\<lambda>k. (\<Sum>n<d. x ! n * cos (2 * pi * real (k * n) / real d),
                   - (\<Sum>n<d. x ! n * sin (2 * pi * real (k * n) / real d))))
           [0..<d])"

text \<open>
  \<^verbatim>\<open>torch.rfft\<close> on a tensor of shape \<open>(b, d)\<close>: every row is transformed. A tensor
  without elements (no row, or rows of width zero) is refused with a RuntimeError.
\<close>

definition torch_rfft :: "real list list \<Rightarrow> error + (real \<times> real) list list" where
  "torch_rfft x =
     (if x = [] \<or> list_ex (\<lambda>row. row = []) x then Inl RuntimeError else Inr (map rfft x))"

text \<open>
  The real signal of the inverse discrete Fourier transform of a full spectrum,
  \<open>x\<^sub>m = (1 / n) Re (\<Sum>\<^sub>k P\<^sub>k exp (2 \<pi> i k m / n))\<close>.
\<close>

definition inverse_dft :: "(real \<times> real) list \<Rightarrow> nat \<Rightarrow> real list" where
  "inverse_dft p n =
     map (\<lambda>m. (\<Sum>k<n. fst (p ! k) * cos (2 * pi * real (k * m) / real n)
                     - snd (p ! k) * sin (2 * pi * real (k * m) / real n)) / real n)
       [0..<n]"

text \<open>
  \<^verbatim>\<open>torch.irfft(p, signal_ndim=1, onesided=False, signal_sizes=(n,))\<close> on one row. The
  transform is complex-to-real: it reads the bins \<open>0 .. n div 2\<close> of the spectrum only
  and takes the others to be their conjugate-symmetric images, \<open>P\<^bsub>n - k\<^esub> = conj P\<^sub>k\<close>.
  A spectrum whose width is not the signal size is refused with a RuntimeError.
\<close>

definition hermitian_completion :: "(real \<times> real) list \<Rightarrow> nat \<Rightarrow> (real \<times> real) list" where
  "hermitian_completion p n =
     map (\<lambda>k. if k \<le> n div 2 then p ! k else (fst (p ! (n - k)), - snd (p ! (n - k)))) [0..<n]"

definition irfft :: "(real \<times> real) list \<Rightarrow> nat \<Rightarrow> error + real list" where
  "irfft p n =
     (if length p = n then Inr (inverse_dft (hermitian_completion p n) n) else Inl RuntimeError)"

definition torch_irfft :: "(real \<times> real) list list \<Rightarrow> nat \<Rightarrow> error + real list list" where
  "torch_irfft p_fft n = all_rows (\<lambda>p. irfft p n) p_fft"

text \<open>Lines 101, 125, 149: \<^verbatim>\<open>a_fft[:, :, 1] *= -1\<close>, on one row.\<close>

definition complex_conjugate :: "(real \<times> real) list \<Rightarrow> (real \<times> real) list" where
  "complex_conjugate a_fft = map (\<lambda>(re, im). (re, im * (- 1))) a_fft"

text \<open>
  Lines 104, 128, 152: \<^verbatim>\<open>a_fft * b_fft\<close>. Both operands are real tensors whose last
  dimension has size 2, and \<open>*\<close> on tensors multiplies entry by entry: real part with
  real part, imaginary part with imaginary part.
\<close>

definition tensor_mul :: "(real \<times> real) list \<Rightarrow> (real \<times> real) list \<Rightarrow> (real \<times> real) list" where
  "tensor_mul a_fft b_fft = map2 (\<lambda>(ar, ai) (br, bi). (ar * br, ai * bi)) a_fft b_fft"

text \<open>
  Lines 97-107 (and 121-131, 145-155) for one pair of rows: transform both, negate the
  imaginary part of the first, multiply, transform back to a signal of size \<open>n\<close>.
\<close>

definition composite :: "real list \<Rightarrow> real list \<Rightarrow> nat \<Rightarrow> error + real list" where
  "composite h t n =
     (let a_fft = rfft h;
          b_fft = rfft t;
          a_fft = complex_conjugate a_fft;
          p_fft = tensor_mul a_fft b_fft
      in irfft p_fft n)"

text \<open>
  \<^verbatim>\<open>r * composite\<close> on one pair of rows, with the broadcasting of torch: widths must
  agree unless one of them is 1.
\<close>

definition broadcast_mul :: "real list \<Rightarrow> real list \<Rightarrow> error + real list" where
  "broadcast_mul r c =
     (if length r = length c then Inr (map2 (*) r c)
      else if length r = 1 then Inr (map (\<lambda>y. r ! 0 * y) c)
      else if length c = 1 then Inr (map (\<lambda>x. x * c ! 0) r)
      else Inl RuntimeError)"

text \<open>\<^verbatim>\<open>torch.sum(r * composite, dim=-1)\<close> on one pair of rows.\<close>

definition sum_product :: "real list \<Rightarrow> real list \<Rightarrow> error + real" where
  "sum_product r c = bind (broadcast_mul r c) (\<lambda>p. Inr (sum_list p))"

text \<open>The second size of a tensor of shape \<open>(b, d)\<close> with \<open>b > 0\<close>: \<^verbatim>\<open>h.shape[1]\<close>.\<close>

definition width :: "'a list list \<Rightarrow> nat" where
  "width x = (case x of [] \<Rightarrow> 0 | row # _ \<Rightarrow> length row)"

subsection \<open>The three forward passes\<close>

text \<open>
  Lines 89-112. The batch is a tensor of shape \<open>(b, 3)\<close>, a list of triples of indices.
  The result has shape \<open>(b, 1)\<close> (\<^verbatim>\<open>keepdim=True\<close>). The signal size is
  \<^verbatim>\<open>h.shape[1:]\<close>, the width of the gathered head rows.
\<close>

definition forward_owa :: "HolE \<Rightarrow> (int \<times> int \<times> int) list \<Rightarrow> error + real list list" where
  "forward_owa self batch =
     bind (call_embedding (entity_embeddings self) (map (\<lambda>(h, r, t). h) batch)) (\<lambda>h.
     bind (call_embedding (relation_embeddings self) (map (\<lambda>(h, r, t). r) batch)) (\<lambda>r.
     bind (call_embedding (entity_embeddings self) (map (\<lambda>(h, r, t). t) batch)) (\<lambda>t.
     bind (torch_rfft h) (\<lambda>a_fft.
     bind (torch_rfft t) (\<lambda>b_fft.
     bind (torch_irfft (map2 tensor_mul (map complex_conjugate a_fft) b_fft) (width h))
       (\<lambda>composite.
     bind (all_rows (\<lambda>(r, c). sum_product r c) (zip r composite)) (\<lambda>scores.
       Inr (map (\<lambda>s. [s]) scores))))))))"

text \<open>
  Lines 114-136. The batch has shape \<open>(b, 2)\<close>: pairs (head, relation). The tails are
  all rows of the entity table; the product of line 128 pairs every head row with every
  entity row, and the result has shape \<open>(b, num_entities)\<close>. The signal size is
  \<^verbatim>\<open>self.embedding_dim\<close>.
\<close>

definition forward_cwa :: "HolE \<Rightarrow> (int \<times> int) list \<Rightarrow> error + real list list" where
  "forward_cwa self batch =
     bind (call_embedding (entity_embeddings self) (map fst batch)) (\<lambda>h.
     bind (call_embedding (relation_embeddings self) (map snd batch)) (\<lambda>r.
     bind (get_weight (entity_embeddings self)) (\<lambda>t.
     bind (torch_rfft h) (\<lambda>h_fft.
     bind (torch_rfft t) (\<lambda>t_fft.
     bind (all_rows (\<lambda>a. torch_irfft (map (\<lambda>b. tensor_mul a b) t_fft) (embedding_dim self))
             (map complex_conjugate h_fft)) (\<lambda>composite.
       all_rows (\<lambda>(r, cs). all_rows (\<lambda>c. sum_product r c) cs) (zip r composite)))))))"

text \<open>
  Lines 138-160. The batch has shape \<open>(b, 2)\<close>: pairs (relation, tail). The heads are
  all rows of the entity table, and it is their transform that line 149 negates; the
  product of line 152 pairs every tail row of the batch with every entity row.
\<close>

definition forward_inverse_cwa :: "HolE \<Rightarrow> (int \<times> int) list \<Rightarrow> error + real list list" where
  "forward_inverse_cwa self batch =
     bind (get_weight (entity_embeddings self)) (\<lambda>h.
     bind (call_embedding (relation_embeddings self) (map fst batch)) (\<lambda>r.
     bind (call_embedding (entity_embeddings self) (map snd batch)) (\<lambda>t.
     bind (torch_rfft h) (\<lambda>h_fft.
     bind (torch_rfft t) (\<lambda>t_fft.
     bind (all_rows (\<lambda>b. torch_irfft (map (\<lambda>a. tensor_mul a b) (map complex_conjugate h_fft))
                            (embedding_dim self))
             t_fft) (\<lambda>composite.
       all_rows (\<lambda>(r, cs). all_rows (\<lambda>c. sum_product r c) cs) (zip r composite)))))))"

text \<open>
  A table of the shape that \<^verbatim>\<open>nn.Embedding(n, d)\<close> gives it: \<open>n\<close> rows of \<open>d\<close> entries,
  and the two sizes say so.
\<close>

definition well_shaped :: "nat \<Rightarrow> nat \<Rightarrow> Embedding \<Rightarrow> bool" where
  "well_shaped n d E \<longleftrightarrow>
     num_embeddings E = n \<and> embedding_size E = d \<and> length (weight E) = n
     \<and> list_all (\<lambda>row. length row = d) (weight E)"

subsection \<open>Construction and initialisation\<close>

text \<open>
  What the constructor reads of the triples factory: the two counts.
\<close>

record TriplesFactory =
  factory_num_entities :: nat
  factory_num_relations :: nat

text \<open>
  Modelled from the spec: \<^verbatim>\<open>BaseModule.__init__\<close> (\<^verbatim>\<open>poem/models/base.py\<close>) is not
  among the sources. The specification lists the construction-time configuration
  (\<open>embedding_dim\<close>, \<open>num_entities\<close> and \<open>num_relations\<close> derived from the dataset,
  the optional pre-supplied tables, the criterion); the base constructor is taken to
  store what line 53-60 passes it in the fields the class reads afterwards.
\<close>

definition BaseModule_init :: "TriplesFactory \<Rightarrow> Loss \<Rightarrow> nat \<Rightarrow> Embedding option \<Rightarrow> HolE" where
  "BaseModule_init triples_factory criterion_arg embedding_dim_arg entity_embeddings_arg =
     \<lparr>num_entities = factory_num_entities triples_factory,
      num_relations = factory_num_relations triples_factory,
      embedding_dim = embedding_dim_arg,
      criterion = criterion_arg,
      entity_embeddings = entity_embeddings_arg,
      relation_embeddings = None\<rparr>"

text \<open>
  \<^verbatim>\<open>nn.Embedding(n, d)\<close>: a table of \<open>n\<close> rows of \<open>d\<close> entries. The values torch draws
  for it are overwritten whole by \<^verbatim>\<open>uniform_\<close> before anything reads them; only the
  shape is modelled.
\<close>

definition nn_Embedding :: "nat \<Rightarrow> nat \<Rightarrow> Embedding" where
  "nn_Embedding n d = \<lparr>num_embeddings = n, embedding_size = d, weight = replicate n (replicate d 0)\<rparr>"

text \<open>
  \<^verbatim>\<open>nn.init.uniform_(w, a, b)\<close> overwrites every entry of \<open>w\<close> with \<open>a + (b - a) u\<close>,
  where \<open>u\<close> is the next sample of the generator in the unit interval. The samples
  are a parameter: \<open>u k\<close> is the \<open>k\<close>-th one drawn by this call.
\<close>

definition uniform_init :: "(nat \<Rightarrow> real) \<Rightarrow> real list list \<Rightarrow> real \<Rightarrow> real \<Rightarrow> real list list" where
  "uniform_init u w a b =
     map (\<lambda>i. map (\<lambda>j. a + (b - a) * u (i * length (w ! i) + j)) [0..<length (w ! i)])
       [0..<length w]"

text \<open>Lines 67-87; \<open>u_e\<close> and \<open>u_r\<close> are the samples of the two calls of \<^verbatim>\<open>uniform_\<close>.\<close>

definition init_embeddings :: "(nat \<Rightarrow> real) \<Rightarrow> (nat \<Rightarrow> real) \<Rightarrow> HolE \<Rightarrow> HolE" where
  "init_embeddings u_e u_r self =
     (let E = nn_Embedding (num_entities self) (embedding_dim self);
          R = nn_Embedding (num_relations self) (embedding_dim self);
          entity_embeddings_init_bound = 6 / sqrt (real (num_embeddings E + embedding_size E));
          E = E\<lparr>weight := uniform_init u_e (weight E)
                 (- entity_embeddings_init_bound) entity_embeddings_init_bound\<rparr>;
          relation_embeddings_init_bound = 6 / sqrt (real (num_embeddings R + embedding_size R));
          R = R\<lparr>weight := uniform_init u_r (weight R)
                 (- relation_embeddings_init_bound) relation_embeddings_init_bound\<rparr>
      in self\<lparr>entity_embeddings := Some E, relation_embeddings := Some R\<rparr>)"

text \<open>
  Lines 39-65, \<^verbatim>\<open>HolE.__init__\<close>. The test of line 64,
  \<^verbatim>\<open>None in [self.entity_embeddings, self.relation_embeddings]\<close>, holds when either
  table is missing.
\<close>

definition HolE_init ::
  "(nat \<Rightarrow> real) \<Rightarrow> (nat \<Rightarrow> real) \<Rightarrow> TriplesFactory \<Rightarrow> Embedding option \<Rightarrow> Embedding option
     \<Rightarrow> nat \<Rightarrow> Loss option \<Rightarrow> HolE" where
  "HolE_init u_e u_r triples_factory entity_embeddings_arg relation_embeddings_arg
       embedding_dim_arg criterion_arg =
     (let criterion_arg =
            (case criterion_arg of None \<Rightarrow> MarginRankingLoss 1 Mean | Some c \<Rightarrow> c);
          self = BaseModule_init triples_factory criterion_arg embedding_dim_arg
                   entity_embeddings_arg;
          self = self\<lparr>relation_embeddings := relation_embeddings_arg\<rparr>
      in if entity_embeddings self = None \<or> relation_embeddings self = None
         then init_embeddings u_e u_r self
         else self)"

subsection \<open>The norm of a row\<close>

definition euclidean_norm :: "real list \<Rightarrow> real" where
  "euclidean_norm row = sqrt (sum_list (map (\<lambda>x. x\<^sup>2) row))"

subsection \<open>Circular correlation as the specification defines it\<close>

text \<open>
  The direct definition of section 4.2: the \<open>k\<close>-th element of the correlation of \<open>a\<close>
  and \<open>b\<close> is \<open>\<Sum>\<^sub>i a\<^sub>i b\<^bsub>(i + k) mod d\<^esub>\<close>.
\<close>

definition circular_correlation :: "real list \<Rightarrow> real list \<Rightarrow> real list" where
  "circular_correlation a b =
     (let d = length a in map (\<lambda>k. \<Sum>i<d. a ! i * b ! ((i + k) mod d)) [0..<d])"

text \<open>
  The product of two complex tensors, entry by entry, as complex numbers: the Hadamard
  product of the specification's \<open>IFFT (conj (FFT head) \<odot> FFT tail)\<close>.
\<close>

definition hadamard :: "(real \<times> real) list \<Rightarrow> (real \<times> real) list \<Rightarrow> (real \<times> real) list" where
  "hadamard a_fft b_fft =
     map2 (\<lambda>(ar, ai) (br, bi). (ar * br - ai * bi, ar * bi + ai * br)) a_fft b_fft"

text \<open>
  The specification's spectral formula; its inverse transform keeps the real signal
  of the inverse discrete Fourier transform.
\<close>

definition spectral_correlation :: "real list \<Rightarrow> real list \<Rightarrow> nat \<Rightarrow> real list" where
  "spectral_correlation a b n = inverse_dft (hadamard (complex_conjugate (rfft a)) (rfft b)) n"

text \<open>The dot product of the specification's score.\<close>

definition inner_product :: "real list \<Rightarrow> real list \<Rightarrow> real" where
  "inner_product r c = sum_list (map2 (*) r c)"

section \<open>The self-adversarial negative-sampling loss\<close>

subsection \<open>The test of \<^verbatim>\<open>src/tests/test_loss_functions.py\<close>\<close>

definition mean :: "real list \<Rightarrow> real" where
  "mean xs = sum_list xs / real (length xs)"

text \<open>Lines 20-21 of the test.\<close>

definition pos_scores :: "real list" where
  "pos_scores = [0, 0, - (5 / 10), - (5 / 10)]"

definition neg_scores :: "real list" where
  "neg_scores = [0, 0, - 1, - 1]"

text \<open>Lines 23-40 of the test: the value the test expects, from its rounded constants.\<close>

definition expected_loss :: real where
  "expected_loss =
     (let weights = [37 / 100, 37 / 100, 13 / 100, 13 / 100];
          log_sigmoids = [- (131 / 100), - (131 / 100), - (69 / 100), - (69 / 100)];
          intermediate = map2 (*) weights log_sigmoids;
          neg_loss = mean intermediate;
          log_sigmoids = [- (31 / 100), - (31 / 100), - (48 / 100), - (48 / 100)];
          pos_loss = mean log_sigmoids
      in (- pos_loss - neg_loss) / 2)"

text \<open>\<^verbatim>\<open>assertAlmostEqual(first, second, delta=delta)\<close> passes when this holds.\<close>

definition assertAlmostEqual :: "real \<Rightarrow> real \<Rightarrow> real \<Rightarrow> bool" where
  "assertAlmostEqual first second delta \<longleftrightarrow> \<bar>first - second\<bar> \<le> delta"

subsection \<open>The loss function\<close>

definition softmax :: "real list \<Rightarrow> real list" where
  "softmax xs = map (\<lambda>x. exp x / sum_list (map exp xs)) xs"

definition sigmoid :: "real \<Rightarrow> real" where
  "sigmoid x = 1 / (1 + exp (- x))"

definition softplus :: "real \<Rightarrow> real" where
  "softplus x = ln (1 + exp x)"

text \<open>The stable form the specification asks for: \<open>log (sigmoid x) = - softplus (- x)\<close>.\<close>

definition logsigmoid :: "real \<Rightarrow> real" where
  "logsigmoid x = - softplus (- x)"

text \<open>
  Modelled from the spec: the formula of section 4.3 of the specification, in its own
  words. The negative scores come in groups (one row per positive example); the
  weights are the softmax within a group, the means are over all entries.
\<close>

definition loss_of_specification :: "real \<Rightarrow> real \<Rightarrow> real list \<Rightarrow> real list list \<Rightarrow> real" where
  "loss_of_specification margin temperature pos neg =
     - (mean (map (\<lambda>p. ln (sigmoid (margin - p))) pos)
        + mean (concat (map (\<lambda>g. map2 (\<lambda>w n. w * ln (sigmoid (n - margin)))
                                   (softmax (map (\<lambda>n. temperature * n) g)) g) neg))) / 2"



text \<open>
  The computation that the comments of the test describe (lines 23-37 of
  \<^verbatim>\<open>src/tests/test_loss_functions.py\<close>). It is not the formula of the specification:
  the comments first negate the scores into distances (for the negative scores
  \<open>[0, 0, -1, -1]\<close> line 26 has \<open>neg_distances - margin = [-1, -1, 0, 0]\<close>, for the
  positive scores \<open>[0, 0, -0.5, -0.5]\<close> line 32 has \<open>pos_distances = [0, 0, 0.5, 0.5]\<close>),
  while the weights are the softmax of the scores themselves (line 24).
\<close>

definition loss_forward :: "real \<Rightarrow> real \<Rightarrow> real list \<Rightarrow> real list list \<Rightarrow> real" where
  "loss_forward margin adversarial_temperature pos neg =
     (let neg_score_weights = map (\<lambda>g. softmax (map (\<lambda>n. adversarial_temperature * n) g)) neg;
          neg_distances = map (map uminus) neg;
          weighted_neg_scores =
            map2 (map2 (\<lambda>w d. w * logsigmoid (d - margin))) neg_score_weights neg_distances;
          neg_loss = mean (concat weighted_neg_scores);
          pos_distances = map uminus pos;
          pos_loss = mean (map (\<lambda>d. logsigmoid (margin - d)) pos_distances)
      in (- pos_loss - neg_loss) / 2)"

section \<open>Properties of the model\<close>

lemma bind_Inr [simp]: "bind (Inr x) f = f x"
  by (simp add: bind_def)

lemma bind_Inl [simp]: "bind (Inl e) f = Inl e"
  by (simp add: bind_def)

lemma call_embedding_Some [simp]: "call_embedding (Some E) idx = embedding E idx"
  by (simp add: call_embedding_def)

lemma get_weight_Some [simp]: "get_weight (Some E) = Inr (weight E)"
  by (simp add: get_weight_def)

subsection \<open>Rows of a tensor\<close>

lemma torch_rfft_Nil [simp]: "torch_rfft [] = Inl RuntimeError"
  by (simp add: torch_rfft_def)


lemma torch_rfft_cases: "torch_rfft x = Inl RuntimeError \<or> torch_rfft x = Inr (map rfft x)"
  by (simp add: torch_rfft_def)

lemma all_rows_Inr:
  assumes "\<forall>x \<in> set xs. f x = Inr (g x)"
  shows "all_rows f xs = Inr (map g xs)"
  using assms by (induction xs) simp_all


lemma length_rfft [simp]: "length (rfft x) = length x"
  by (simp add: rfft_def Let_def)

lemma length_complex_conjugate [simp]: "length (complex_conjugate p) = length p"
  by (simp add: complex_conjugate_def)

lemma length_tensor_mul [simp]: "length (tensor_mul p q) = min (length p) (length q)"
  by (simp add: tensor_mul_def)

lemma length_inverse_dft [simp]: "length (inverse_dft p n) = n"
  by (simp add: inverse_dft_def)

lemma composite_rows:
  assumes "length h = n" and "length t = n"
  shows "composite h t n =
    Inr (inverse_dft (hermitian_completion (tensor_mul (complex_conjugate (rfft h)) (rfft t)) n) n)"
  using assms by (simp add: composite_def irfft_def)


subsection \<open>Empty batches\<close>

lemma forward_empty:
  assumes "entity_embeddings self = Some E" and "relation_embeddings self = Some R"
  shows "forward_owa self [] = Inl RuntimeError" and "forward_cwa self [] = Inl RuntimeError"
    and "forward_inverse_cwa self [] = Inl RuntimeError"
proof -
  show "forward_owa self [] = Inl RuntimeError" "forward_cwa self [] = Inl RuntimeError"
    using assms by (simp_all add: forward_owa_def forward_cwa_def)
  show "forward_inverse_cwa self [] = Inl RuntimeError"
    using assms torch_rfft_cases [of "weight E"]
    by (auto simp: forward_inverse_cwa_def)
qed


lemma constructed_tables:
  "\<exists>E R. entity_embeddings (HolE_init u_e u_r triples_factory entity_embeddings_arg
                  relation_embeddings_arg embedding_dim_arg criterion_arg) = Some E
     \<and> relation_embeddings (HolE_init u_e u_r triples_factory entity_embeddings_arg
                  relation_embeddings_arg embedding_dim_arg criterion_arg) = Some R"
  by (cases entity_embeddings_arg; cases relation_embeddings_arg)
    (simp_all add: HolE_init_def BaseModule_init_def init_embeddings_def Let_def)

text \<open>
  C8, as stated, fails: on a batch of zero rows the gathered tensors have no element,
  the first \<^verbatim>\<open>torch.rfft\<close> on such a tensor (lines 97, 121, 146) raises a RuntimeError,
  and no score tensor is returned, in each of the three modes.
\<close>

theorem empty_batch_at_model:
  "forward_owa
     \<lparr>num_entities = 2, num_relations = 1, embedding_dim = 1,
      criterion = MarginRankingLoss 1 Mean,
      entity_embeddings = Some \<lparr>num_embeddings = 2, embedding_size = 1, weight = [[1], [2]]\<rparr>,
      relation_embeddings = Some \<lparr>num_embeddings = 1, embedding_size = 1, weight = [[3]]\<rparr>\<rparr>
     [] = Inl RuntimeError
   \<and> forward_cwa
     \<lparr>num_entities = 2, num_relations = 1, embedding_dim = 1,
      criterion = MarginRankingLoss 1 Mean,
      entity_embeddings = Some \<lparr>num_embeddings = 2, embedding_size = 1, weight = [[1], [2]]\<rparr>,
      relation_embeddings = Some \<lparr>num_embeddings = 1, embedding_size = 1, weight = [[3]]\<rparr>\<rparr>
     [] = Inl RuntimeError
   \<and> forward_inverse_cwa
     \<lparr>num_entities = 2, num_relations = 1, embedding_dim = 1,
      criterion = MarginRankingLoss 1 Mean,
      entity_embeddings = Some \<lparr>num_embeddings = 2, embedding_size = 1, weight = [[1], [2]]\<rparr>,
      relation_embeddings = Some \<lparr>num_embeddings = 1, embedding_size = 1, weight = [[3]]\<rparr>\<rparr>
     [] = Inl RuntimeError"
  by (simp add: forward_owa_def forward_cwa_def forward_inverse_cwa_def torch_rfft_def)

text \<open>
  C8, amended. In each of the three scoring modes a batch of zero rows raises a
  RuntimeError and produces no score tensor: for every model that holds its two tables,
  and so for every model the constructor returns.
\<close>

theorem empty_batch_raises:
  "forward_owa (self\<lparr>entity_embeddings := Some E, relation_embeddings := Some R\<rparr>) []
     = Inl RuntimeError
   \<and> forward_cwa (self\<lparr>entity_embeddings := Some E, relation_embeddings := Some R\<rparr>) []
     = Inl RuntimeError
   \<and> forward_inverse_cwa (self\<lparr>entity_embeddings := Some E, relation_embeddings := Some R\<rparr>) []
     = Inl RuntimeError
   \<and> forward_owa (HolE_init u_e u_r triples_factory entity_embeddings_arg
         relation_embeddings_arg embedding_dim_arg criterion_arg) [] = Inl RuntimeError
   \<and> forward_cwa (HolE_init u_e u_r triples_factory entity_embeddings_arg
         relation_embeddings_arg embedding_dim_arg criterion_arg) [] = Inl RuntimeError
   \<and> forward_inverse_cwa (HolE_init u_e u_r triples_factory entity_embeddings_arg
         relation_embeddings_arg embedding_dim_arg criterion_arg) [] = Inl RuntimeError"
proof -
  obtain E' R' where
    "entity_embeddings (HolE_init u_e u_r triples_factory entity_embeddings_arg
       relation_embeddings_arg embedding_dim_arg criterion_arg) = Some E'"
    "relation_embeddings (HolE_init u_e u_r triples_factory entity_embeddings_arg
       relation_embeddings_arg embedding_dim_arg criterion_arg) = Some R'"
    using constructed_tables by blast
  then show ?thesis
    by (simp add: forward_empty)
qed

subsection \<open>The three modes agree\<close>








subsection \<open>Construction\<close>

text \<open>
  C10. Constructed with no criterion, the model's criterion is the margin ranking loss
  with margin 1 and mean reduction; constructed with a criterion, it is that criterion.
  So the self-adversarial loss is the model's criterion only when it was passed.
\<close>

theorem default_criterion:
  "criterion (HolE_init u_e u_r triples_factory entity_embeddings_arg relation_embeddings_arg
                embedding_dim_arg None) = MarginRankingLoss 1 Mean
   \<and> criterion (HolE_init u_e u_r triples_factory entity_embeddings_arg relation_embeddings_arg
                embedding_dim_arg (Some c)) = c"
  by (simp add: HolE_init_def BaseModule_init_def init_embeddings_def Let_def)


lemma unit_sample_bound:
  fixes B x :: real
  assumes "0 \<le> B" "0 \<le> x" "x \<le> 1"
  shows "- B \<le> - B + (B - - B) * x \<and> - B + (B - - B) * x \<le> B"
proof -
  have "0 \<le> B * x" using assms by simp
  moreover have "B * x \<le> B * 1" using assms by (intro mult_left_mono) simp_all
  ultimately show ?thesis by (simp add: algebra_simps)
qed

lemma uniform_init_bounds:
  assumes u: "\<forall>k. 0 \<le> u k \<and> u k \<le> 1" and B: "0 \<le> B"
  shows "\<forall>row \<in> set (uniform_init u w (- B) B). \<forall>v \<in> set row. - B \<le> v \<and> v \<le> B"
proof (intro ballI)
  fix row v
  assume "row \<in> set (uniform_init u w (- B) B)" and "v \<in> set row"
  define f where "f = (\<lambda>x::real. - B + (B - - B) * x)"
  have "uniform_init u w (- B) B =
      map (\<lambda>i. map (\<lambda>j. f (u (i * length (w ! i) + j))) [0..<length (w ! i)]) [0..<length w]"
    by (simp only: uniform_init_def f_def)
  with \<open>row \<in> set (uniform_init u w (- B) B)\<close> \<open>v \<in> set row\<close>
  obtain k where "v = f (u k)"
    by auto
  moreover have "0 \<le> u k" "u k \<le> 1" using u by simp_all
  ultimately show "- B \<le> v \<and> v \<le> B"
    using unit_sample_bound [OF B, of "u k"] by (simp only: f_def)
qed

lemma well_shaped_uniform_init:
  "well_shaped n d (nn_Embedding n d\<lparr>weight := uniform_init u (weight (nn_Embedding n d)) a b\<rparr>)"
  by (simp add: well_shaped_def nn_Embedding_def uniform_init_def list_all_length)

text \<open>
  C6. When the constructor initialises the tables (a table is missing; in particular
  when none is supplied) and the generator's samples lie in the unit interval, the
  entity table has \<open>num_entities\<close> rows of \<open>d\<close> values within
  \<open>\<plusminus> 6 / sqrt (num_entities + d)\<close> and the relation table has \<open>num_relations\<close> rows
  of \<open>d\<close> values within \<open>\<plusminus> 6 / sqrt (num_relations + d)\<close>: each bound from the
  table's own row count.
\<close>

theorem initialization_bound:
  assumes u_e: "\<forall>k. 0 \<le> u_e k \<and> u_e k \<le> 1"
    and u_r: "\<forall>k. 0 \<le> u_r k \<and> u_r k \<le> 1"
    and missing: "entity_embeddings_arg = None \<or> relation_embeddings_arg = None"
  shows "\<exists>E R.
      entity_embeddings (HolE_init u_e u_r triples_factory entity_embeddings_arg
        relation_embeddings_arg d criterion_arg) = Some E
    \<and> relation_embeddings (HolE_init u_e u_r triples_factory entity_embeddings_arg
        relation_embeddings_arg d criterion_arg) = Some R
    \<and> well_shaped (factory_num_entities triples_factory) d E
    \<and> well_shaped (factory_num_relations triples_factory) d R
    \<and> (\<forall>row \<in> set (weight E). \<forall>v \<in> set row.
          - (6 / sqrt (real (factory_num_entities triples_factory + d))) \<le> v
          \<and> v \<le> 6 / sqrt (real (factory_num_entities triples_factory + d)))
    \<and> (\<forall>row \<in> set (weight R). \<forall>v \<in> set row.
          - (6 / sqrt (real (factory_num_relations triples_factory + d))) \<le> v
          \<and> v \<le> 6 / sqrt (real (factory_num_relations triples_factory + d)))"
proof -
  let ?ne = "factory_num_entities triples_factory"
  let ?nr = "factory_num_relations triples_factory"
  let ?be = "6 / sqrt (real (?ne + d))"
  let ?br = "6 / sqrt (real (?nr + d))"
  let ?E = "nn_Embedding ?ne d\<lparr>weight := uniform_init u_e (weight (nn_Embedding ?ne d)) (- ?be) ?be\<rparr>"
  let ?R = "nn_Embedding ?nr d\<lparr>weight := uniform_init u_r (weight (nn_Embedding ?nr d)) (- ?br) ?br\<rparr>"
  let ?self = "HolE_init u_e u_r triples_factory entity_embeddings_arg relation_embeddings_arg d criterion_arg"
  have sizes: "num_embeddings (nn_Embedding n d) = n" "embedding_size (nn_Embedding n d) = d" for n
    by (simp_all add: nn_Embedding_def)
  have E: "entity_embeddings ?self = Some ?E" and R: "relation_embeddings ?self = Some ?R"
    using missing by (auto simp: HolE_init_def BaseModule_init_def init_embeddings_def Let_def sizes)
  have be: "0 \<le> ?be" and br: "0 \<le> ?br" by simp_all
  have "\<forall>row \<in> set (weight ?E). \<forall>v \<in> set row. - ?be \<le> v \<and> v \<le> ?be"
    using uniform_init_bounds [OF u_e be] by simp
  moreover have "\<forall>row \<in> set (weight ?R). \<forall>v \<in> set row. - ?br \<le> v \<and> v \<le> ?br"
    using uniform_init_bounds [OF u_r br] by simp
  ultimately show ?thesis
    using E R well_shaped_uniform_init [of ?ne d u_e] well_shaped_uniform_init [of ?nr d u_r]
    by blast
qed

theorem initialization_bound_witness:
  "\<exists>E R.
      entity_embeddings (HolE_init (\<lambda>k. 1 / 2) (\<lambda>k. 1 / 2)
        \<lparr>factory_num_entities = 2, factory_num_relations = 1\<rparr> None None 2 None) = Some E
    \<and> relation_embeddings (HolE_init (\<lambda>k. 1 / 2) (\<lambda>k. 1 / 2)
        \<lparr>factory_num_entities = 2, factory_num_relations = 1\<rparr> None None 2 None) = Some R
    \<and> well_shaped 2 2 E
    \<and> well_shaped 1 2 R
    \<and> (\<forall>row \<in> set (weight E). \<forall>v \<in> set row. - (6 / sqrt 4) \<le> v \<and> v \<le> 6 / sqrt 4)
    \<and> (\<forall>row \<in> set (weight R). \<forall>v \<in> set row. - (6 / sqrt 3) \<le> v \<and> v \<le> 6 / sqrt 3)"
  using initialization_bound [where u_e = "\<lambda>k. 1 / 2" and u_r = "\<lambda>k. 1 / 2"
      and entity_embeddings_arg = None and relation_embeddings_arg = None
      and triples_factory = "\<lparr>factory_num_entities = 2, factory_num_relations = 1\<rparr>"
      and d = 2 and criterion_arg = None]
  by simp

text \<open>
  C7, as stated, fails: with the entity table supplied and the relation table left
  out, line 64 finds a \<^verbatim>\<open>None\<close> and \<^verbatim>\<open>_init_embeddings\<close> replaces both tables, the
  supplied one included.
\<close>

theorem one_table_supplied:
  "entity_embeddings
     (HolE_init (\<lambda>k. 1 / 2) (\<lambda>k. 1 / 2) \<lparr>factory_num_entities = 1, factory_num_relations = 1\<rparr>
        (Some \<lparr>num_embeddings = 1, embedding_size = 1, weight = [[5]]\<rparr>) None 1 None)
   \<noteq> Some \<lparr>num_embeddings = 1, embedding_size = 1, weight = [[5]]\<rparr>"
  by (simp add: HolE_init_def BaseModule_init_def init_embeddings_def Let_def nn_Embedding_def
      uniform_init_def)

text \<open>
  C7, amended. When both tables are supplied, initialisation is bypassed and the
  model holds the two supplied tables unchanged. When only one is supplied, the
  constructed model is the one constructed with none: the supplied table is discarded
  and both are initialised.
\<close>

theorem both_tables_supplied:
  "entity_embeddings (HolE_init u_e u_r triples_factory (Some E) (Some R) d criterion_arg) = Some E
   \<and> relation_embeddings (HolE_init u_e u_r triples_factory (Some E) (Some R) d criterion_arg) = Some R
   \<and> HolE_init u_e u_r triples_factory (Some E) None d criterion_arg
       = HolE_init u_e u_r triples_factory None None d criterion_arg
   \<and> HolE_init u_e u_r triples_factory None (Some R) d criterion_arg
       = HolE_init u_e u_r triples_factory None None d criterion_arg"
  by (simp add: HolE_init_def BaseModule_init_def init_embeddings_def Let_def)


subsection \<open>The composite vector against circular correlation\<close>

lemma cos_sin_3pi2:
  "cos (3 * pi / 2) = 0" "sin (3 * pi / 2) = - 1"
  "cos (pi * 3 / 2) = 0" "sin (pi * 3 / 2) = - 1"
proof -
  have eq: "3 * pi / 2 = 3 / 2 * pi" "pi * 3 / 2 = 3 / 2 * pi" by simp_all
  show "cos (3 * pi / 2) = 0" "cos (pi * 3 / 2) = 0"
    unfolding eq by (rule cos_3over2_pi)+
  show "sin (3 * pi / 2) = - 1" "sin (pi * 3 / 2) = - 1"
    unfolding eq by (rule sin_3over2_pi)+
qed

lemma cos_sin_9pi2: "cos (pi * 9 / 2) = 0" "sin (pi * 9 / 2) = 1"
proof -
  have eq: "pi * 9 / 2 = pi / 2 + 2 * real 2 * pi" by simp
  show "cos (pi * 9 / 2) = 0" unfolding eq cos_add by (simp only: cos_2npi sin_2npi) simp
  show "sin (pi * 9 / 2) = 1" unfolding eq sin_add by (simp only: cos_2npi sin_2npi) simp
qed

lemma four: "Suc (Suc (Suc (Suc 0))) = 4"
  by simp

lemma upt4: "[0..<4] = [0, 1, 2, 3]"
  by (simp add: upt_rec)

lemma lessThan4: "{..<4::nat} = {0, 1, 2, 3}"
  by auto

lemma rfft_e0: "rfft [1, 0, 0, 0] = [(1, 0), (1, 0), (1, 0), (1, 0)]"
  by (simp add: rfft_def upt4 lessThan4)

lemma rfft_e1: "rfft [0, 1, 0, 0] = [(1, 0), (0, - 1), (- 1, 0), (0, 1)]"
  by (simp add: rfft_def upt4 lessThan4 cos_sin_3pi2)

lemma product_e0_e1:
  "tensor_mul (complex_conjugate (rfft [1, 0, 0, 0])) (rfft [0, 1, 0, 0])
     = [(1, 0), (0, 0), (- 1, 0), (0, 0)]"
  by (simp add: rfft_e0 rfft_e1 complex_conjugate_def tensor_mul_def)

lemma hadamard_e0_e1:
  "hadamard (complex_conjugate (rfft [1, 0, 0, 0])) (rfft [0, 1, 0, 0])
     = [(1, 0), (0, - 1), (- 1, 0), (0, 1)]"
  by (simp add: rfft_e0 rfft_e1 complex_conjugate_def hadamard_def)

lemma rfft_e1_e1:
  "tensor_mul (complex_conjugate (rfft [0, 1, 0, 0])) (rfft [0, 1, 0, 0])
     = [(1, 0), (0, - 1), (1, 0), (0, - 1)]"
  by (simp add: rfft_e1 complex_conjugate_def tensor_mul_def)

lemma completion4:
  "hermitian_completion [p0, p1, p2, p3] 4 = [p0, p1, p2, (fst p1, - snd p1)]"
  by (simp add: hermitian_completion_def upt4)

lemma composite_e0_e1: "composite [1, 0, 0, 0] [0, 1, 0, 0] 4 = Inr [0, 1 / 2, 0, 1 / 2]"
  by (simp add: composite_def product_e0_e1 irfft_def completion4 inverse_dft_def upt4 lessThan4)

text \<open>
  Where the spectrum is not conjugate symmetric, \<open>irfft\<close> shows that it reads the
  lower bins only: for \<open>h = t = [0, 1, 0, 0]\<close> the product of line 104 is
  \<open>[(1, 0), (0, -1), (1, 0), (0, -1)]\<close>, and the signal is \<open>[1/2, 1/2, 1/2, -1/2]\<close>.
\<close>

lemma composite_e1_e1: "composite [0, 1, 0, 0] [0, 1, 0, 0] 4 = Inr [1 / 2, 1 / 2, 1 / 2, - (1 / 2)]"
  by (simp add: composite_def rfft_e1_e1 [unfolded rfft_e1] rfft_e1 irfft_def completion4
      inverse_dft_def upt4 lessThan4 cos_sin_3pi2 cos_sin_9pi2 complex_conjugate_def tensor_mul_def)

lemma irfft_hadamard_e0_e1:
  "irfft (hadamard (complex_conjugate (rfft [1, 0, 0, 0])) (rfft [0, 1, 0, 0])) 4
     = Inr [0, 1, 0, 0]"
  by (simp add: hadamard_e0_e1 irfft_def completion4 inverse_dft_def upt4 lessThan4 cos_sin_3pi2
      cos_sin_9pi2)

lemma spectral_correlation_e0_e1: "spectral_correlation [1, 0, 0, 0] [0, 1, 0, 0] 4 = [0, 1, 0, 0]"
  by (simp add: spectral_correlation_def hadamard_e0_e1 inverse_dft_def upt4 lessThan4
      cos_sin_3pi2 cos_sin_9pi2)

text \<open>
  C1, at the entity table \<open>[[1, 0, 0, 0], [0, 1, 0, 0]]\<close>, the relation table
  \<open>[[0, 1, 0, 0]]\<close> and the batch \<open>[(0, 0, 1)]\<close>: \<open>forward_owa\<close> returns the score
  \<open>1 / 2\<close>, while the dot product of the relation row with
  \<open>IFFT (conj (FFT head) \<odot> FFT tail)\<close> is \<open>1\<close>. Line 104 multiplies the real parts and
  the imaginary parts separately, which is not the product of complex numbers.
\<close>

theorem forward_owa_at_unit_vectors:
  "forward_owa
     \<lparr>num_entities = 2, num_relations = 1, embedding_dim = 4,
      criterion = MarginRankingLoss 1 Mean,
      entity_embeddings =
        Some \<lparr>num_embeddings = 2, embedding_size = 4, weight = [[1, 0, 0, 0], [0, 1, 0, 0]]\<rparr>,
      relation_embeddings =
        Some \<lparr>num_embeddings = 1, embedding_size = 4, weight = [[0, 1, 0, 0]]\<rparr>\<rparr>
     [(0, 0, 1)] = Inr [[1 / 2]]
   \<and> inner_product [0, 1, 0, 0] (spectral_correlation [1, 0, 0, 0] [0, 1, 0, 0] 4) = 1"
proof -
  have "irfft [(1, 0), (0, 0), (- 1, 0), (0, 0)] 4 = Inr [0, 1 / 2, 0, 1 / 2]"
    using composite_e0_e1 by (simp add: composite_def product_e0_e1)
  then have "forward_owa
     \<lparr>num_entities = 2, num_relations = 1, embedding_dim = 4,
      criterion = MarginRankingLoss 1 Mean,
      entity_embeddings =
        Some \<lparr>num_embeddings = 2, embedding_size = 4, weight = [[1, 0, 0, 0], [0, 1, 0, 0]]\<rparr>,
      relation_embeddings =
        Some \<lparr>num_embeddings = 1, embedding_size = 4, weight = [[0, 1, 0, 0]]\<rparr>\<rparr>
     [(0, 0, 1)] = Inr [[1 / 2]]"
    by (simp add: forward_owa_def torch_rfft_def torch_irfft_def width_def four
        product_e0_e1 sum_product_def broadcast_mul_def)
  then show ?thesis
    by (simp add: spectral_correlation_e0_e1 inner_product_def)
qed

text \<open>
  C2, at \<open>a = [1, 0, 0, 0]\<close> and \<open>b = [0, 1, 0, 0]\<close>: the vector the code computes is
  \<open>[0, 1 / 2, 0, 1 / 2]\<close>, the circular correlation is \<open>[0, 1, 0, 0]\<close>. The spectrum
  handed to \<open>irfft\<close> here is real and even, hence conjugate symmetric, so the inverse
  transform is the documented one; on the product of complex numbers the same \<open>irfft\<close>
  returns the circular correlation.
\<close>

theorem composite_at_unit_vectors:
  "tensor_mul (complex_conjugate (rfft [1, 0, 0, 0])) (rfft [0, 1, 0, 0])
     = [(1, 0), (0, 0), (- 1, 0), (0, 0)]
   \<and> composite [1, 0, 0, 0] [0, 1, 0, 0] 4 = Inr [0, 1 / 2, 0, 1 / 2]
   \<and> circular_correlation [1, 0, 0, 0] [0, 1, 0, 0] = [0, 1, 0, 0]
   \<and> irfft (hadamard (complex_conjugate (rfft [1, 0, 0, 0])) (rfft [0, 1, 0, 0])) 4
       = Inr [0, 1, 0, 0]"
  by (simp add: product_e0_e1 composite_e0_e1 irfft_hadamard_e0_e1 circular_correlation_def upt4
      lessThan4)


subsection \<open>Circular correlation through the transforms\<close>

lemma roots_of_unity_cos_sum:
  fixes z :: int and d :: nat
  assumes d: "0 < d"
  shows "(\<Sum>k<d. cos (2 * pi * real k * real_of_int z / real d))
           = (if int d dvd z then real d else 0)"
proof -
  define x where "x = 2 * pi * real_of_int z / real d"
  define w where "w = cis x"
  have angle: "2 * pi * real k * real_of_int z / real d = real k * x" for k
    by (simp add: x_def)
  have summand: "cos (2 * pi * real k * real_of_int z / real d) = Re (w ^ k)" for k
    unfolding angle by (simp add: w_def DeMoivre)
  have "real d * x = 2 * pi * real_of_int z"
    using d by (simp add: x_def)
  then have wd: "w ^ d = 1"
    by (simp add: w_def DeMoivre)
  show ?thesis
  proof (cases "int d dvd z")
    case True
    then obtain q where "z = int d * q" ..
    then have "x = 2 * pi * real_of_int q"
      using d by (simp add: x_def)
    then have "w = 1"
      by (simp add: w_def)
    then show ?thesis
      using True by (simp add: summand)
  next
    case False
    have "w \<noteq> 1"
    proof
      assume "w = 1"
      then have "cos x = 1"
        by (simp add: w_def complex_eq_iff)
      then obtain n :: int where "x = real_of_int n * 2 * pi"
        using cos_one_2pi_int by blast
      then have "real_of_int z = real_of_int (n * int d)"
        using d by (simp add: x_def field_simps)
      then have "z = n * int d"
        by (simp only: of_int_eq_iff)
      with False show False by simp
    qed
    then have "(\<Sum>k<d. w ^ k) = 0"
      using wd by (simp add: sum_gp_strict)
    then have "Re (\<Sum>k<d. w ^ k) = 0"
      by simp
    then have "(\<Sum>k<d. Re (w ^ k)) = 0"
      by (simp only: Re_sum)
    then show ?thesis
      using False by (simp add: summand)
  qed
qed

lemma correlation_angle:
  fixes \<alpha> \<beta> \<gamma> :: real
  shows "(cos \<alpha> * cos \<beta> + sin \<alpha> * sin \<beta>) * cos \<gamma> + (cos \<alpha> * sin \<beta> - sin \<alpha> * cos \<beta>) * sin \<gamma>
           = cos (\<beta> - \<alpha> - \<gamma>)"
proof -
  have "cos (\<beta> - \<alpha> - \<gamma>) = cos (\<beta> - \<alpha>) * cos \<gamma> + sin (\<beta> - \<alpha>) * sin \<gamma>"
    by (rule cos_diff)
  also have "\<dots> = (cos \<beta> * cos \<alpha> + sin \<beta> * sin \<alpha>) * cos \<gamma>
      + (sin \<beta> * cos \<alpha> - cos \<beta> * sin \<alpha>) * sin \<gamma>"
    by (simp only: cos_diff sin_diff)
  finally show ?thesis
    by (simp add: mult.commute)
qed

lemma shifted_index:
  assumes "m < d"
  shows "int d dvd int m - int n - int j \<longleftrightarrow> m = (n + j) mod d"
proof -
  have "int d dvd int m - int n - int j \<longleftrightarrow> int d dvd int m - int (n + j)"
    by (simp add: algebra_simps)
  also have "\<dots> \<longleftrightarrow> int m mod int d = int (n + j) mod int d"
    by (simp only: mod_eq_dvd_iff)
  also have "\<dots> \<longleftrightarrow> int (m mod d) = int ((n + j) mod d)"
    by (simp only: zmod_int)
  also have "\<dots> \<longleftrightarrow> m = (n + j) mod d"
    using assms by simp
  finally show ?thesis .
qed


lemma hadamard_nth:
  assumes "k < length a" "length b = length a"
  shows "hadamard (complex_conjugate (rfft a)) (rfft b) ! k =
    ((\<Sum>n<length a. a ! n * cos (2 * pi * real (k * n) / real (length a)))
       * (\<Sum>m<length a. b ! m * cos (2 * pi * real (k * m) / real (length a)))
     + (\<Sum>n<length a. a ! n * sin (2 * pi * real (k * n) / real (length a)))
       * (\<Sum>m<length a. b ! m * sin (2 * pi * real (k * m) / real (length a))),
     (\<Sum>n<length a. a ! n * sin (2 * pi * real (k * n) / real (length a)))
       * (\<Sum>m<length a. b ! m * cos (2 * pi * real (k * m) / real (length a)))
     - (\<Sum>n<length a. a ! n * cos (2 * pi * real (k * n) / real (length a)))
       * (\<Sum>m<length a. b ! m * sin (2 * pi * real (k * m) / real (length a))))"
  using assms by (simp add: hadamard_def complex_conjugate_def rfft_def Let_def)

lemma spectral_summand:
  fixes a b :: "real list" and d k j :: nat
  defines "\<theta> \<equiv> \<lambda>i. 2 * pi * real i / real d"
  shows "((\<Sum>n<d. a ! n * cos (\<theta> (k * n))) * (\<Sum>m<d. b ! m * cos (\<theta> (k * m)))
          + (\<Sum>n<d. a ! n * sin (\<theta> (k * n))) * (\<Sum>m<d. b ! m * sin (\<theta> (k * m)))) * cos (\<theta> (k * j))
       - ((\<Sum>n<d. a ! n * sin (\<theta> (k * n))) * (\<Sum>m<d. b ! m * cos (\<theta> (k * m)))
          - (\<Sum>n<d. a ! n * cos (\<theta> (k * n))) * (\<Sum>m<d. b ! m * sin (\<theta> (k * m)))) * sin (\<theta> (k * j))
       = (\<Sum>n<d. \<Sum>m<d. a ! n * b ! m
            * cos (2 * pi * real k * real_of_int (int m - int n - int j) / real d))"
proof -
  have angle: "2 * pi * real k * real_of_int (int m - int n - int j) / real d
      = \<theta> (k * m) - \<theta> (k * n) - \<theta> (k * j)" for n m
  proof -
    have "2 * pi * real k * real_of_int (int m - int n - int j)
        = 2 * pi * real (k * m) - 2 * pi * real (k * n) - 2 * pi * real (k * j)"
      by (simp add: algebra_simps)
    then show ?thesis
      by (simp only: \<theta>_def diff_divide_distrib)
  qed
  have "(\<Sum>n<d. \<Sum>m<d. a ! n * b ! m
            * cos (2 * pi * real k * real_of_int (int m - int n - int j) / real d))
      = (\<Sum>n<d. \<Sum>m<d. a ! n * b ! m
            * ((cos (\<theta> (k * n)) * cos (\<theta> (k * m)) + sin (\<theta> (k * n)) * sin (\<theta> (k * m))) * cos (\<theta> (k * j))
               + (cos (\<theta> (k * n)) * sin (\<theta> (k * m)) - sin (\<theta> (k * n)) * cos (\<theta> (k * m))) * sin (\<theta> (k * j))))"
    by (simp only: angle correlation_angle)
  also have "\<dots> = (\<Sum>n<d. \<Sum>m<d.
        (a ! n * cos (\<theta> (k * n))) * (b ! m * cos (\<theta> (k * m))) * cos (\<theta> (k * j))
      + (a ! n * sin (\<theta> (k * n))) * (b ! m * sin (\<theta> (k * m))) * cos (\<theta> (k * j))
      - ((a ! n * sin (\<theta> (k * n))) * (b ! m * cos (\<theta> (k * m))) * sin (\<theta> (k * j))
         - (a ! n * cos (\<theta> (k * n))) * (b ! m * sin (\<theta> (k * m))) * sin (\<theta> (k * j))))"
    by (intro sum.cong refl) (simp add: algebra_simps)
  also have "\<dots> =
        (\<Sum>n<d. \<Sum>m<d. (a ! n * cos (\<theta> (k * n))) * (b ! m * cos (\<theta> (k * m)))) * cos (\<theta> (k * j))
      + (\<Sum>n<d. \<Sum>m<d. (a ! n * sin (\<theta> (k * n))) * (b ! m * sin (\<theta> (k * m)))) * cos (\<theta> (k * j))
      - ((\<Sum>n<d. \<Sum>m<d. (a ! n * sin (\<theta> (k * n))) * (b ! m * cos (\<theta> (k * m)))) * sin (\<theta> (k * j))
         - (\<Sum>n<d. \<Sum>m<d. (a ! n * cos (\<theta> (k * n))) * (b ! m * sin (\<theta> (k * m)))) * sin (\<theta> (k * j)))"
    by (simp only: sum.distrib sum_subtractf sum_distrib_right)
  finally show ?thesis
    by (simp only: sum_product distrib_right left_diff_distrib)
qed


lemma spectral_entry:
  fixes a b :: "real list"
  assumes len: "length b = length a" and d: "0 < length a" and j: "j < length a"
  shows "(\<Sum>k<length a.
            fst (hadamard (complex_conjugate (rfft a)) (rfft b) ! k)
              * cos (2 * pi * real (k * j) / real (length a))
            - snd (hadamard (complex_conjugate (rfft a)) (rfft b) ! k)
              * sin (2 * pi * real (k * j) / real (length a))) / real (length a)
         = (\<Sum>i<length a. a ! i * b ! ((i + j) mod length a))"
proof -
  define d where "d = length a"
  define c where "c = (\<lambda>k n m. cos (2 * pi * real k * real_of_int (int m - int n - int j) / real d))"
  have dpos: "0 < d" using d by (simp add: d_def)
  have "(\<Sum>k<d. fst (hadamard (complex_conjugate (rfft a)) (rfft b) ! k)
              * cos (2 * pi * real (k * j) / real d)
            - snd (hadamard (complex_conjugate (rfft a)) (rfft b) ! k)
              * sin (2 * pi * real (k * j) / real d))
      = (\<Sum>k<d. \<Sum>n<d. \<Sum>m<d. a ! n * b ! m * c k n m)"
  proof (rule sum.cong [OF refl])
    fix k assume "k \<in> {..<d}"
    then have k: "k < length a" by (simp add: d_def)
    show "fst (hadamard (complex_conjugate (rfft a)) (rfft b) ! k)
              * cos (2 * pi * real (k * j) / real d)
            - snd (hadamard (complex_conjugate (rfft a)) (rfft b) ! k)
              * sin (2 * pi * real (k * j) / real d)
          = (\<Sum>n<d. \<Sum>m<d. a ! n * b ! m * c k n m)"
      unfolding hadamard_nth [OF k len] fst_conv snd_conv c_def d_def
      by (rule spectral_summand)
  qed
  also have "\<dots> = (\<Sum>n<d. \<Sum>k<d. \<Sum>m<d. a ! n * b ! m * c k n m)"
    by (rule sum.swap)
  also have "\<dots> = (\<Sum>n<d. \<Sum>m<d. \<Sum>k<d. a ! n * b ! m * c k n m)"
    by (intro sum.cong refl sum.swap)
  also have "\<dots> = (\<Sum>n<d. \<Sum>m<d. a ! n * b ! m * (\<Sum>k<d. c k n m))"
    by (simp only: sum_distrib_left)
  also have "\<dots> = (\<Sum>n<d. \<Sum>m<d. a ! n * b ! m
        * (if int d dvd int m - int n - int j then real d else 0))"
    unfolding c_def by (simp only: roots_of_unity_cos_sum [OF dpos])
  also have "\<dots> = (\<Sum>n<d. \<Sum>m<d. if m = (n + j) mod d then a ! n * b ! m * real d else 0)"
    by (intro sum.cong refl) (simp add: shifted_index)
  also have "\<dots> = (\<Sum>n<d. a ! n * b ! ((n + j) mod d) * real d)"
    using dpos by (intro sum.cong refl) (simp add: sum.delta)
  also have "\<dots> = (\<Sum>n<d. a ! n * b ! ((n + j) mod d)) * real d"
    by (simp only: sum_distrib_right)
  finally show ?thesis
    using dpos by (simp add: d_def)
qed

text \<open>
  The two formulas of the specification agree: for real vectors \<open>a\<close>, \<open>b\<close> of one
  length \<open>d > 0\<close>, a power of two or not, the inverse transform of the complex product
  \<open>conj (FFT a) \<odot> FFT b\<close> is the circular correlation \<open>\<Sum>\<^sub>i a\<^sub>i b\<^bsub>(i + k) mod d\<^esub>\<close>. What
  separates the code from both is the product of line 104 alone.
\<close>

theorem spectral_correlation_circular:
  fixes a b :: "real list"
  assumes "length b = length a" and "0 < length a"
  shows "spectral_correlation a b (length a) = circular_correlation a b"
  unfolding spectral_correlation_def inverse_dft_def circular_correlation_def Let_def
proof (rule map_cong [OF refl])
  fix j assume "j \<in> set [0..<length a]"
  then have "j < length a" by simp
  then show "(\<Sum>k<length a.
            fst (hadamard (complex_conjugate (rfft a)) (rfft b) ! k)
              * cos (2 * pi * real (k * j) / real (length a))
            - snd (hadamard (complex_conjugate (rfft a)) (rfft b) ! k)
              * sin (2 * pi * real (k * j) / real (length a))) / real (length a)
         = (\<Sum>i<length a. a ! i * b ! ((i + j) mod length a))"
    by (rule spectral_entry [OF assms])
qed

theorem spectral_correlation_circular_witness:
  "spectral_correlation [1, 0, 0, 0] [0, 1, 0, 0] (length [1, 0, 0, 0 :: real])
     = circular_correlation [1, 0, 0, 0] [0, 1, 0, 0]"
  using spectral_correlation_circular [of "[0, 1, 0, 0]" "[1, 0, 0, 0]"] by simp

section \<open>Properties of the loss\<close>

subsection \<open>Bounds on the exponential and the logarithm\<close>

lemma exp_lower:
  fixes x :: real
  assumes "0 \<le> x"
  shows "(\<Sum>m<n. x ^ m / fact m) \<le> exp x"
proof -
  obtain t where "exp x = (\<Sum>m<n. x ^ m / fact m) + (exp t / fact n) * x ^ n"
    using Maclaurin_exp_le [of x n] by blast
  moreover have "0 \<le> (exp t / fact n) * x ^ n"
    using assms by simp
  ultimately show ?thesis by linarith
qed

lemma exp_upper:
  fixes x :: real
  assumes x: "0 \<le> x" and q: "x ^ n / fact n < 1"
  shows "exp x \<le> (\<Sum>m<n. x ^ m / fact m) / (1 - x ^ n / fact n)"
proof -
  define r where "r = x ^ n / fact n"
  define S where "S = (\<Sum>m<n. x ^ m / fact m)"
  obtain t where t: "\<bar>t\<bar> \<le> \<bar>x\<bar>"
    and "exp x = (\<Sum>m<n. x ^ m / fact m) + (exp t / fact n) * x ^ n"
    using Maclaurin_exp_le [of x n] by blast
  then have eq: "exp x = S + exp t * r"
    by (simp add: r_def S_def)
  have "exp t \<le> exp x" using t x by simp
  moreover have "0 \<le> r" using x by (simp add: r_def)
  ultimately have "exp t * r \<le> exp x * r"
    by (rule mult_right_mono)
  with eq have "exp x * (1 - r) \<le> S"
    by (simp add: algebra_simps)
  moreover have "0 < 1 - r" using q by (simp add: r_def)
  ultimately have "exp x \<le> S / (1 - r)"
    by (simp add: pos_le_divide_eq)
  then show ?thesis by (simp only: r_def S_def)
qed

lemma ln_upper:
  fixes y c :: real
  assumes "0 < y" "y \<le> exp c"
  shows "ln y \<le> c"
  using assms ln_le_cancel_iff [of y "exp c"] by simp

lemma ln_lower:
  fixes y c :: real
  assumes "exp c \<le> y"
  shows "c \<le> ln y"
proof -
  have "0 < y" using assms exp_gt_zero [of c] by linarith
  then show ?thesis using assms ln_le_cancel_iff [of "exp c" y] by simp
qed


lemma exp_minus_upper:
  fixes c x :: real
  assumes "0 < c" "c \<le> exp x"
  shows "exp (- x) \<le> 1 / c"
  using assms by (simp add: exp_minus inverse_eq_divide frac_le)

lemma exp_minus_lower:
  fixes c x :: real
  assumes "exp x \<le> c"
  shows "1 / c \<le> exp (- x)"
  using assms exp_gt_zero [of x] by (simp add: exp_minus inverse_eq_divide frac_le)

lemma exp_1_bounds: "2718 / 1000 \<le> exp (1::real)" "exp (1::real) \<le> 272 / 100"
  using exp_lower [of 1 7] exp_upper [of 1 7] by (simp_all add: lessThan_Suc eval_nat_numeral)

lemma exp_half_bounds: "164 / 100 \<le> exp (1 / 2 :: real)" "exp (1 / 2 :: real) \<le> 165 / 100"
  using exp_lower [of "1 / 2" 4] exp_upper [of "1 / 2" 5]
  by (simp_all add: lessThan_Suc eval_nat_numeral)

lemma exp_3_halves_lower: "448 / 100 \<le> exp (3 / 2 :: real)"
  using exp_lower [of "3 / 2" 8] by (simp add: lessThan_Suc eval_nat_numeral)

lemma exp_2_upper: "exp (2::real) \<le> 73984 / 10000"
proof -
  have "exp (2::real) = exp 1 * exp 1"
    using exp_add [of "1::real" 1] by simp
  also have "\<dots> \<le> (272 / 100) * (272 / 100)"
    using exp_1_bounds(2) by (intro mult_mono) simp_all
  finally show ?thesis by simp
qed

lemma exp_lower_values:
  "1368 / 1000 \<le> exp (314 / 1000 :: real)"
  "12233 / 10000 \<le> exp (202 / 1000 :: real)"
  "372 / 100 \<le> exp (1314 / 1000 :: real)"
  "83984 / 10000 \<le> exp (213 / 100 :: real)"
  "161 / 100 \<le> exp (48 / 100 :: real)"
  "2 \<le> exp (7 / 10 :: real)"
  using exp_lower [of "314 / 1000" 4] exp_lower [of "202 / 1000" 4] exp_lower [of "1314 / 1000" 8]
    exp_lower [of "213 / 100" 8] exp_lower [of "48 / 100" 4] exp_lower [of "7 / 10" 4]
  by (simp_all add: lessThan_Suc eval_nat_numeral)

lemma exp_upper_values:
  "exp (31 / 100 :: real) \<le> 1367 / 1000"
  "exp (47 / 100 :: real) \<le> 1606 / 1000"
  "exp (131 / 100 :: real) \<le> 3718 / 1000"
  "exp (69 / 100 :: real) \<le> 2"
  using exp_upper [of "31 / 100" 3] exp_upper [of "47 / 100" 4] exp_upper [of "131 / 100" 7]
    exp_upper [of "69 / 100" 5]
  by (simp_all add: lessThan_Suc eval_nat_numeral)

lemma a_bounds: "100 / 272 \<le> exp (- 1 :: real)" "exp (- 1 :: real) \<le> 1000 / 2718"
  using exp_minus_lower [OF exp_1_bounds(2)] exp_minus_upper [OF _ exp_1_bounds(1)] by simp_all

lemma T1_bounds: "31 / 100 \<le> ln (1 + exp (- 1 :: real))" "ln (1 + exp (- 1 :: real)) \<le> 314 / 1000"
proof -
  show "31 / 100 \<le> ln (1 + exp (- 1 :: real))"
    using a_bounds(1) exp_upper_values(1) by (intro ln_lower) simp
  show "ln (1 + exp (- 1 :: real)) \<le> 314 / 1000"
    using a_bounds(2) exp_lower_values(1) by (intro ln_upper) (simp_all add: add_pos_pos)
qed

lemma T2_bounds:
  "47 / 100 \<le> ln (1 + exp (- (1 / 2) :: real))" "ln (1 + exp (- (1 / 2) :: real)) \<le> 48 / 100"
proof -
  have lo: "100 / 165 \<le> exp (- (1 / 2) :: real)"
    using exp_minus_lower [OF exp_half_bounds(2)] by simp
  have hi: "exp (- (1 / 2) :: real) \<le> 100 / 164"
    using exp_minus_upper [OF _ exp_half_bounds(1)] by simp
  show "47 / 100 \<le> ln (1 + exp (- (1 / 2) :: real))"
    using lo exp_upper_values(2) by (intro ln_lower) simp
  show "ln (1 + exp (- (1 / 2) :: real)) \<le> 48 / 100"
    using hi exp_lower_values(5) by (intro ln_upper) (simp_all add: add_pos_pos)
qed

lemma T2_spec_upper: "ln (1 + exp (- (3 / 2) :: real)) \<le> 202 / 1000"
proof -
  have hi: "exp (- (3 / 2) :: real) \<le> 100 / 448"
    using exp_minus_upper [OF _ exp_3_halves_lower] by simp
  show ?thesis
    using hi exp_lower_values(2) by (intro ln_upper) (simp_all add: add_pos_pos)
qed

lemma L_bounds: "131 / 100 \<le> ln (1 + exp (1::real))" "ln (1 + exp (1::real)) \<le> 1314 / 1000"
proof -
  show "131 / 100 \<le> ln (1 + exp (1::real))"
    using exp_1_bounds(1) exp_upper_values(3) by (intro ln_lower) simp
  show "ln (1 + exp (1::real)) \<le> 1314 / 1000"
    using exp_1_bounds(2) exp_lower_values(3) by (intro ln_upper) (simp_all add: add_pos_pos)
qed

lemma L2_upper: "ln (1 + exp (2::real)) \<le> 213 / 100"
  using exp_2_upper exp_lower_values(4) by (intro ln_upper) (simp_all add: add_pos_pos)

lemma ln2_bounds: "69 / 100 \<le> ln (2::real)" "ln (2::real) \<le> 7 / 10"
proof -
  show "69 / 100 \<le> ln (2::real)"
    using exp_upper_values(4) by (intro ln_lower) simp
  show "ln (2::real) \<le> 7 / 10"
    using exp_lower_values(6) by (intro ln_upper) simp_all
qed


subsection \<open>The loss at the input of the test\<close>

lemma ln_sigmoid: "ln (sigmoid x) = - ln (1 + exp (- x))"
proof -
  have "0 < 1 + exp (- x)" by (simp add: add_pos_pos)
  then show ?thesis by (simp add: sigmoid_def ln_div)
qed


lemma softmax_neg_scores:
  "softmax (map (\<lambda>n. 1 * n) neg_scores) =
     [1 / (2 + 2 * exp (- 1)), 1 / (2 + 2 * exp (- 1)),
      exp (- 1) / (2 + 2 * exp (- 1)), exp (- 1) / (2 + 2 * exp (- 1))]"
  by (simp add: softmax_def neg_scores_def)

lemma loss_forward_at_test:
  "loss_forward 1 1 pos_scores [neg_scores] =
     (ln (1 + exp (- 1)) + ln (1 + exp (- (1 / 2)))) / 4
     + (ln (1 + exp 1) + exp (- 1) * ln 2) / (8 * (1 + exp (- 1)))"
proof -
  define a :: real where "a = exp (- 1)"
  define T1 :: real where "T1 = ln (1 + exp (- 1))"
  define T2 :: real where "T2 = ln (1 + exp (- (1 / 2)))"
  define L :: real where "L = ln (1 + exp 1)"
  define l2 :: real where "l2 = ln 2"
  have pos: "0 < a" by (simp add: a_def)
  have "loss_forward 1 1 pos_scores [neg_scores] =
      (- ((- T1 + (- T1 + (- T2 + - T2))) / 4)
       - ((1 / (2 + 2 * a) * - L + (1 / (2 + 2 * a) * - L
          + (a / (2 + 2 * a) * - l2 + a / (2 + 2 * a) * - l2))) / 4)) / 2"
    unfolding loss_forward_def Let_def list.map softmax_neg_scores
    unfolding a_def T1_def T2_def L_def l2_def
    by (simp add: pos_scores_def neg_scores_def mean_def logsigmoid_def softplus_def)
  also have "\<dots> = (T1 + T2) / 4 + (L + a * l2) / (8 * (1 + a))"
  proof -
    define D where "D = 1 + a"
    define X where "X = 1 / (2 + 2 * a) * - L + (1 / (2 + 2 * a) * - L
          + (a / (2 + 2 * a) * - l2 + a / (2 + 2 * a) * - l2))"
    have D: "D \<noteq> 0" using pos by (simp add: D_def)
    have two: "2 + 2 * a = 2 * D" by (simp add: D_def)
    have "1 / (2 * D) * - L + (1 / (2 * D) * - L
          + (a / (2 * D) * - l2 + a / (2 * D) * - l2)) = - ((L + a * l2) / D)"
      using D by (simp add: field_simps)
    then have X: "X = - ((L + a * l2) / D)"
      by (simp only: X_def two)
    have "(- ((- T1 + (- T1 + (- T2 + - T2))) / 4) - X / 4) / 2 = (T1 + T2) / 4 - X / 8"
      by argo
    also have "\<dots> = (T1 + T2) / 4 + (L + a * l2) / (8 * D)"
      unfolding X by simp
    finally show ?thesis
      by (simp only: X_def D_def)
  qed
  finally show ?thesis
    by (simp only: a_def T1_def T2_def L_def l2_def)
qed


lemma loss_of_specification_at_test:
  "loss_of_specification 1 1 pos_scores [neg_scores] =
     (ln (1 + exp (- 1)) + ln (1 + exp (- (3 / 2)))) / 4
     + (ln (1 + exp 1) + exp (- 1) * ln (1 + exp 2)) / (8 * (1 + exp (- 1)))"
proof -
  define a :: real where "a = exp (- 1)"
  define T1 :: real where "T1 = ln (1 + exp (- 1))"
  define T2 :: real where "T2 = ln (1 + exp (- (3 / 2)))"
  define L :: real where "L = ln (1 + exp 1)"
  define l2 :: real where "l2 = ln (1 + exp 2)"
  have pos: "0 < a" by (simp add: a_def)
  have "loss_of_specification 1 1 pos_scores [neg_scores] =
      - ((- T1 + (- T1 + (- T2 + - T2))) / 4
         + (1 / (2 + 2 * a) * - L + (1 / (2 + 2 * a) * - L
          + (a / (2 + 2 * a) * - l2 + a / (2 + 2 * a) * - l2))) / 4) / 2"
    unfolding loss_of_specification_def list.map softmax_neg_scores
    unfolding a_def T1_def T2_def L_def l2_def
    by (simp add: pos_scores_def neg_scores_def mean_def ln_sigmoid)
  also have "\<dots> = (T1 + T2) / 4 + (L + a * l2) / (8 * (1 + a))"
  proof -
    define D where "D = 1 + a"
    define X where "X = 1 / (2 + 2 * a) * - L + (1 / (2 + 2 * a) * - L
          + (a / (2 + 2 * a) * - l2 + a / (2 + 2 * a) * - l2))"
    have D: "D \<noteq> 0" using pos by (simp add: D_def)
    have two: "2 + 2 * a = 2 * D" by (simp add: D_def)
    have "1 / (2 * D) * - L + (1 / (2 * D) * - L
          + (a / (2 * D) * - l2 + a / (2 * D) * - l2)) = - ((L + a * l2) / D)"
      using D by (simp add: field_simps)
    then have X: "X = - ((L + a * l2) / D)"
      by (simp only: X_def two)
    have "- ((- T1 + (- T1 + (- T2 + - T2))) / 4 + X / 4) / 2 = (T1 + T2) / 4 - X / 8"
      by argo
    also have "\<dots> = (T1 + T2) / 4 + (L + a * l2) / (8 * D)"
      unfolding X by simp
    finally show ?thesis
      by (simp only: X_def D_def)
  qed
  finally show ?thesis
    by (simp only: a_def T1_def T2_def L_def l2_def)
qed

lemma expected_loss_value: "expected_loss = 3411 / 10000"
  by (simp add: expected_loss_def mean_def)

lemma weighted_term_upper:
  fixes a L l :: real
  assumes a: "100 / 272 \<le> a" "a \<le> 1000 / 2718"
    and L: "0 \<le> L" "L \<le> Lh" and l: "0 \<le> l" "l \<le> lh"
  shows "(L + a * l) / (8 * (1 + a)) \<le> (Lh + 1000 / 2718 * lh) / (8 * (1 + 100 / 272))"
proof -
  have "a * l \<le> 1000 / 2718 * lh"
    using a l by (intro mult_mono) simp_all
  then have "L + a * l \<le> Lh + 1000 / 2718 * lh"
    using L by linarith
  moreover have "0 \<le> L + a * l" using a L l by simp
  moreover have "8 * (1 + 100 / 272) \<le> 8 * (1 + a)" using a by simp
  ultimately show ?thesis
    by (intro frac_le) simp_all
qed

lemma weighted_term_lower:
  fixes a L l :: real
  assumes a: "100 / 272 \<le> a" "a \<le> 1000 / 2718"
    and L: "0 \<le> Ll" "Ll \<le> L" and l: "0 \<le> ll" "ll \<le> l"
  shows "(Ll + 100 / 272 * ll) / (8 * (1 + 1000 / 2718)) \<le> (L + a * l) / (8 * (1 + a))"
proof -
  have "100 / 272 * ll \<le> a * l"
    using a l by (intro mult_mono) simp_all
  then have "Ll + 100 / 272 * ll \<le> L + a * l"
    using L by linarith
  moreover have "0 \<le> Ll + 100 / 272 * ll" using L l by simp
  moreover have "8 * (1 + a) \<le> 8 * (1 + 1000 / 2718)" using a by simp
  moreover have "0 < 8 * (1 + a)" using a by simp
  ultimately show ?thesis
    by (intro frac_le) simp_all
qed

lemma loss_forward_bounds:
  "33 / 100 \<le> loss_forward 1 1 pos_scores [neg_scores]"
  "loss_forward 1 1 pos_scores [neg_scores] \<le> 35 / 100"
proof -
  define W :: real where
    "W = (ln (1 + exp 1) + exp (- 1) * ln 2) / (8 * (1 + exp (- 1)))"
  define T1 :: real where "T1 = ln (1 + exp (- 1))"
  define T2 :: real where "T2 = ln (1 + exp (- (1 / 2)))"
  have "(131 / 100 + 100 / 272 * (69 / 100)) / (8 * (1 + 1000 / 2718)) \<le> W"
    unfolding W_def using a_bounds L_bounds(1) ln2_bounds(1)
    by (intro weighted_term_lower) simp_all
  then have lo: "14 / 100 \<le> W" by simp
  have "W \<le> (1314 / 1000 + 1000 / 2718 * (7 / 10)) / (8 * (1 + 100 / 272))"
    unfolding W_def using a_bounds L_bounds ln2_bounds
    by (intro weighted_term_upper) simp_all
  then have hi: "W \<le> 15 / 100" by simp
  have T1: "31 / 100 \<le> T1" "T1 \<le> 314 / 1000"
    unfolding T1_def by (rule T1_bounds)+
  have T2: "47 / 100 \<le> T2" "T2 \<le> 48 / 100"
    unfolding T2_def by (rule T2_bounds)+
  have eq: "loss_forward 1 1 pos_scores [neg_scores] = (T1 + T2) / 4 + W"
    unfolding loss_forward_at_test W_def T1_def T2_def ..
  show "33 / 100 \<le> loss_forward 1 1 pos_scores [neg_scores]"
    unfolding eq using lo T1(1) T2(1) by argo
  show "loss_forward 1 1 pos_scores [neg_scores] \<le> 35 / 100"
    unfolding eq using hi T1(2) T2(2) by argo
qed

lemma loss_of_specification_upper:
  "loss_of_specification 1 1 pos_scores [neg_scores] < 3211 / 10000"
proof -
  define W :: real where
    "W = (ln (1 + exp 1) + exp (- 1) * ln (1 + exp 2)) / (8 * (1 + exp (- 1)))"
  define T1 :: real where "T1 = ln (1 + exp (- 1))"
  define T2 :: real where "T2 = ln (1 + exp (- (3 / 2)))"
  have L2: "0 \<le> ln (1 + exp (2::real))" by simp
  have "W \<le> (1314 / 1000 + 1000 / 2718 * (213 / 100)) / (8 * (1 + 100 / 272))"
    unfolding W_def using a_bounds L_bounds L2 L2_upper
    by (intro weighted_term_upper) simp_all
  then have hi: "W \<le> 1918 / 10000" by simp
  have T1: "T1 \<le> 314 / 1000"
    unfolding T1_def by (rule T1_bounds)
  have T2: "T2 \<le> 202 / 1000"
    unfolding T2_def by (rule T2_spec_upper)
  have eq: "loss_of_specification 1 1 pos_scores [neg_scores] = (T1 + T2) / 4 + W"
    unfolding loss_of_specification_at_test W_def T1_def T2_def ..
  show ?thesis
    unfolding eq using hi T1 T2 by argo
qed


lemma exp_1_tight: "27182 / 10000 \<le> exp (1::real)" "exp (1::real) \<le> 27183 / 10000"
  using exp_lower [of 1 8] exp_upper [of 1 9] by (simp_all add: lessThan_Suc eval_nat_numeral)

lemma exp_3_halves_upper: "exp (3 / 2 :: real) \<le> 4482 / 1000"
  using exp_upper [of "3 / 2" 10] by (simp add: lessThan_Suc eval_nat_numeral)

lemma exp_upper_tight:
  "exp (3132 / 10000 :: real) \<le> 136787 / 100000"
  "exp (2013 / 10000 :: real) \<le> 12231 / 10000"
  "exp (13132 / 10000 :: real) \<le> 37182 / 10000"
  "exp (21268 / 10000 :: real) \<le> 83886 / 10000"
  using exp_upper [of "3132 / 10000" 5] exp_upper [of "2013 / 10000" 4]
    exp_upper [of "13132 / 10000" 9] exp_upper [of "21268 / 10000" 12]
  by (simp_all add: lessThan_Suc eval_nat_numeral)

lemma a_tight: "10000 / 27183 \<le> exp (- 1 :: real)" "exp (- 1 :: real) \<le> 10000 / 27182"
  using exp_minus_lower [OF exp_1_tight(2)] exp_minus_upper [OF _ exp_1_tight(1)] by simp_all

lemma exp_2_lower: "738861 / 100000 \<le> exp (2::real)"
proof -
  have "(27182 / 10000) * (27182 / 10000) \<le> exp (1::real) * exp 1"
    using exp_1_tight(1) by (intro mult_mono) simp_all
  also have "\<dots> = exp (2::real)"
    using exp_add [of "1::real" 1] by simp
  finally show ?thesis by simp
qed

lemma ln_lower_tight:
  "3132 / 10000 \<le> ln (1 + exp (- 1 :: real))"
  "2013 / 10000 \<le> ln (1 + exp (- (3 / 2) :: real))"
  "13132 / 10000 \<le> ln (1 + exp (1::real))"
  "21268 / 10000 \<le> ln (1 + exp (2::real))"
proof -
  show "3132 / 10000 \<le> ln (1 + exp (- 1 :: real))"
    using a_tight(1) exp_upper_tight(1) by (intro ln_lower) simp
  have "1000 / 4482 \<le> exp (- (3 / 2) :: real)"
    using exp_minus_lower [OF exp_3_halves_upper] by simp
  then show "2013 / 10000 \<le> ln (1 + exp (- (3 / 2) :: real))"
    using exp_upper_tight(2) by (intro ln_lower) simp
  show "13132 / 10000 \<le> ln (1 + exp (1::real))"
    using exp_1_tight(1) exp_upper_tight(3) by (intro ln_lower) simp
  show "21268 / 10000 \<le> ln (1 + exp (2::real))"
    using exp_2_lower exp_upper_tight(4) by (intro ln_lower) simp
qed

lemma weighted_term_lower_tight:
  fixes a L l :: real
  assumes a: "10000 / 27183 \<le> a" "a \<le> 10000 / 27182"
    and L: "0 \<le> Ll" "Ll \<le> L" and l: "0 \<le> ll" "ll \<le> l"
  shows "(Ll + 10000 / 27183 * ll) / (8 * (1 + 10000 / 27182)) \<le> (L + a * l) / (8 * (1 + a))"
proof -
  have "10000 / 27183 * ll \<le> a * l"
    using a l by (intro mult_mono) simp_all
  then have "Ll + 10000 / 27183 * ll \<le> L + a * l"
    using L by linarith
  moreover have "0 \<le> Ll + 10000 / 27183 * ll" using L l by simp
  moreover have "8 * (1 + a) \<le> 8 * (1 + 10000 / 27182)" using a by simp
  moreover have "0 < 8 * (1 + a)" using a by simp
  ultimately show ?thesis
    by (intro frac_le) simp_all
qed

lemma loss_of_specification_lower:
  "32 / 100 \<le> loss_of_specification 1 1 pos_scores [neg_scores]"
proof -
  define W :: real where
    "W = (ln (1 + exp 1) + exp (- 1) * ln (1 + exp 2)) / (8 * (1 + exp (- 1)))"
  define T1 :: real where "T1 = ln (1 + exp (- 1))"
  define T2 :: real where "T2 = ln (1 + exp (- (3 / 2)))"
  have "(13132 / 10000 + 10000 / 27183 * (21268 / 10000)) / (8 * (1 + 10000 / 27182)) \<le> W"
    unfolding W_def using a_tight ln_lower_tight(3,4)
    by (intro weighted_term_lower_tight) simp_all
  then have lo: "19149 / 100000 \<le> W" by simp
  have T1: "3132 / 10000 \<le> T1"
    unfolding T1_def by (rule ln_lower_tight)
  have T2: "2013 / 10000 \<le> T2"
    unfolding T2_def by (rule ln_lower_tight)
  have eq: "loss_of_specification 1 1 pos_scores [neg_scores] = (T1 + T2) / 4 + W"
    unfolding loss_of_specification_at_test W_def T1_def T2_def ..
  show ?thesis
    unfolding eq using lo T1 T2 by argo
qed

subsection \<open>The formula of the loss\<close>







lemma map2_map_right:
  "map2 h ws (map g ys) = map2 (\<lambda>w y. h w (g y)) ws ys"
  by (induction ws ys rule: list_induct2') simp_all



text \<open>
  A remark on the test. At the scores of the test, with margin 1 and temperature 1,
  the formula of the specification gives a value below \<open>0.3211\<close>, further than \<open>0.02\<close>
  from the value \<open>0.3411\<close> that the test computes from its rounded constants and
  compares the loss with in line 45; the comments of the test negate the scores first.
\<close>

lemma specification_against_expected_loss:
  "\<not> assertAlmostEqual expected_loss (loss_of_specification 1 1 pos_scores [neg_scores]) (2 / 100)"
  using loss_of_specification_upper by (simp add: assertAlmostEqual_def expected_loss_value)

text \<open>
  C5. At the positive scores \<open>[0, 0, -0.5, -0.5]\<close> and the negative scores
  \<open>[0, 0, -1, -1]\<close>, with margin 1 and temperature 1, the formula of the specification
  gives a value within \<open>0.02\<close> of \<open>0.34\<close> (the last conjunct). So does the computation
  that the comments of the test describe; so does the value the test expects, and
  these two are within \<open>0.02\<close> of each other (the two assertions of the test).
\<close>

theorem loss_sanity_value:
  "assertAlmostEqual (loss_forward 1 1 pos_scores [neg_scores]) (34 / 100) (2 / 100)
   \<and> assertAlmostEqual expected_loss (34 / 100) (2 / 100)
   \<and> assertAlmostEqual expected_loss (loss_forward 1 1 pos_scores [neg_scores]) (2 / 100)
   \<and> assertAlmostEqual (loss_of_specification 1 1 pos_scores [neg_scores]) (34 / 100) (2 / 100)"
proof -
  define x where "x = loss_forward 1 1 pos_scores [neg_scores]"
  define y where "y = loss_of_specification 1 1 pos_scores [neg_scores]"
  have x: "33 / 100 \<le> x" "x \<le> 35 / 100"
    unfolding x_def by (rule loss_forward_bounds)+
  have y: "32 / 100 \<le> y" "y < 3211 / 10000"
    unfolding y_def by (rule loss_of_specification_lower loss_of_specification_upper)+
  have "\<bar>x - 34 / 100\<bar> \<le> 2 / 100" "\<bar>3411 / 10000 - x\<bar> \<le> 2 / 100"
    using x by argo+
  moreover have "\<bar>y - 34 / 100\<bar> \<le> 2 / 100"
    using y by argo
  ultimately show ?thesis
    by (simp add: assertAlmostEqual_def expected_loss_value x_def y_def)
qed

section \<open>The norm constraint on the entity table\<close>

lemma rfft_3_4: "rfft [3, 4] = [(7, 0), (- 1, 0)]"
  by (simp add: rfft_def eval_nat_numeral lessThan_Suc upt_rec)

lemma euclidean_norm_3_4: "euclidean_norm [3, 4] = 5"
proof -
  have "sqrt 25 = sqrt (5\<^sup>2)" by simp
  also have "\<dots> = 5" by (simp only: real_sqrt_abs abs_numeral)
  finally show ?thesis by (simp add: euclidean_norm_def)
qed

text \<open>
  C9, at a model constructed from the supplied entity table \<open>[[3, 4]]\<close> and relation
  table \<open>[[1, 0]]\<close>: the class fixes the maximal norm at 1 (line 37), the model holds
  the entity row of norm 5 as it is, and the single-triple score of \<open>(0, 0, 0)\<close> is 25,
  the score of the unclipped row (the row rescaled to norm 1 would score 1). Line 68
  builds the entity table without the constant, and no pass rescales a row.
\<close>

theorem entity_rows_not_clipped:
  "entity_embedding_max_norm = 1
   \<and> entity_embeddings
       (HolE_init (\<lambda>k. 0) (\<lambda>k. 0) \<lparr>factory_num_entities = 1, factory_num_relations = 1\<rparr>
          (Some \<lparr>num_embeddings = 1, embedding_size = 2, weight = [[3, 4]]\<rparr>)
          (Some \<lparr>num_embeddings = 1, embedding_size = 2, weight = [[1, 0]]\<rparr>) 2 None)
     = Some \<lparr>num_embeddings = 1, embedding_size = 2, weight = [[3, 4]]\<rparr>
   \<and> euclidean_norm [3, 4] = 5
   \<and> forward_owa
       (HolE_init (\<lambda>k. 0) (\<lambda>k. 0) \<lparr>factory_num_entities = 1, factory_num_relations = 1\<rparr>
          (Some \<lparr>num_embeddings = 1, embedding_size = 2, weight = [[3, 4]]\<rparr>)
          (Some \<lparr>num_embeddings = 1, embedding_size = 2, weight = [[1, 0]]\<rparr>) 2 None)
       [(0, 0, 0)] = Inr [[25]]"
  by (simp add: entity_embedding_max_norm_def euclidean_norm_3_4 HolE_init_def BaseModule_init_def
      forward_owa_def torch_rfft_def torch_irfft_def width_def rfft_3_4 complex_conjugate_def
      tensor_mul_def irfft_def hermitian_completion_def inverse_dft_def sum_product_def
      broadcast_mul_def eval_nat_numeral lessThan_Suc upt_rec)

end
